theory Spec2Isabelle
  imports Main "HOL-Library.Word"
begin

section \<open>The MSSQL dialect of geoalchemy2: reflection and compilation of spatial columns\<close>

text \<open>
  A shallow embedding of \<^verbatim>\<open>geoalchemy2/admin/dialects/mssql.py\<close>. The module has two
  parts: \<^verbatim>\<open>reflect_geometry_column\<close>, which rewrites the declared type of a reflected
  column from the answers of two metadata queries, and the compilation rules registered for
  the \<^verbatim>\<open>mssql\<close> dialect.
\<close>

subsection \<open>Python values and strings\<close>

text \<open>
  A value of a result row: SQL \<^verbatim>\<open>NULL\<close> arrives as Python's \<^verbatim>\<open>None\<close>, the columns read here
  are character data or integers.
\<close>

datatype sqlval = SqlNull | SqlStr string | SqlInt int

text \<open>The exceptions the module's own statements can raise.\<close>

datatype error =
    NoResultFound
  | MultipleResultsFound
  | ValueError
  | AttributeError
  | IndexError

text \<open>
  \<^verbatim>\<open>str.lower()\<close> and \<^verbatim>\<open>str.upper()\<close>. Characters are Isabelle's 8-bit characters; the
  letters \<^verbatim>\<open>A\<close> to \<^verbatim>\<open>Z\<close> (codes 65 to 90) and \<^verbatim>\<open>a\<close> to \<^verbatim>\<open>z\<close> (codes 97 to 122) change
  case, every other character is kept. Python folds letters outside ASCII as well; the
  module compares the folded strings with ASCII literals only and upper-cases only members
  of its own ASCII list.
\<close>

definition is_upper :: "char \<Rightarrow> bool" where
  "is_upper c \<longleftrightarrow> 65 \<le> (of_char c :: nat) \<and> (of_char c :: nat) \<le> 90"

definition is_lower :: "char \<Rightarrow> bool" where
  "is_lower c \<longleftrightarrow> 97 \<le> (of_char c :: nat) \<and> (of_char c :: nat) \<le> 122"

definition lower_char :: "char \<Rightarrow> char" where
  "lower_char c = (if is_upper c then char_of ((of_char c :: nat) + 32) else c)"

definition upper_char :: "char \<Rightarrow> char" where
  "upper_char c = (if is_lower c then char_of ((of_char c :: nat) - 32) else c)"

definition lower :: "string \<Rightarrow> string" where
  "lower s = map lower_char s"

definition upper :: "string \<Rightarrow> string" where
  "upper s = map upper_char s"

text \<open>\<^verbatim>\<open>str(n)\<close> for an integer: its decimal digits, with a minus sign when negative.\<close>

definition digit_char :: "nat \<Rightarrow> char" where
  "digit_char d = char_of (48 + d)"

function str_nat :: "nat \<Rightarrow> string" where
  "str_nat n = (if n < 10 then [digit_char n] else str_nat (n div 10) @ [digit_char (n mod 10)])"
  by pat_completeness auto
termination
  by (relation "measure (\<lambda>n. n)") auto

declare str_nat.simps [simp del]

definition str_int :: "int \<Rightarrow> string" where
  "str_int i = (if i < 0 then ''-'' @ str_nat (nat (- i)) else str_nat (nat i))"

text \<open>\<^verbatim>\<open>str(v)\<close> for a value of a result row.\<close>

fun py_str :: "sqlval \<Rightarrow> string" where
  "py_str SqlNull = ''None''"
| "py_str (SqlStr s) = s"
| "py_str (SqlInt i) = str_int i"

text \<open>
  Two strings are equal under case-insensitive comparison when they have the same length
  and agree position by position up to the case of a letter. This definition is the
  comparison the specification speaks of; it is independent of \<^const>\<open>lower\<close>.
\<close>

definition same_letter :: "char \<Rightarrow> char \<Rightarrow> bool" where
  "same_letter a b \<longleftrightarrow>
     a = b
     \<or> (is_upper a \<and> (of_char b :: nat) = of_char a + 32)
     \<or> (is_upper b \<and> (of_char a :: nat) = of_char b + 32)"

definition caseless_eq :: "string \<Rightarrow> string \<Rightarrow> bool" where
  "caseless_eq s t \<longleftrightarrow> list_all2 same_letter s t"

subsection \<open>Column types, column metadata, tables and the inspector\<close>

text \<open>
  The keyword arguments with which \<^verbatim>\<open>reflect_geometry_column\<close> builds a
  \<^verbatim>\<open>Geometry\<close>: the fields of the spatial type descriptor.
\<close>

record geometry =
  geometry_type :: string
  srid :: sqlval
  spatial_index :: bool
  nullable :: bool
  spatial_index_reflected :: bool

text \<open>
  The declared type of a column: SQLAlchemy's placeholder \<^verbatim>\<open>NullType\<close>, a \<^verbatim>\<open>Geometry\<close>,
  or an instance of any other type class, named by its class.
\<close>

datatype sa_type = NullType | Geometry geometry | OtherType string

text \<open>
  Modelled from the spec: the \<^verbatim>\<open>Geometry\<close> type constructor of \<^verbatim>\<open>geoalchemy2.types\<close>,
  which is not among the sources. The specification describes it as accepting the keyword
  configuration \<^verbatim>\<open>geometry_type\<close>, \<^verbatim>\<open>srid\<close>, \<^verbatim>\<open>spatial_index\<close>, \<^verbatim>\<open>nullable\<close> and a reflection
  marker, and the constructed descriptor as carrying exactly these values.
\<close>

definition new_Geometry :: "string \<Rightarrow> sqlval \<Rightarrow> bool \<Rightarrow> bool \<Rightarrow> bool \<Rightarrow> sa_type" where
  "new_Geometry gt sr si nu reflected =
     Geometry \<lparr>geometry_type = gt, srid = sr, spatial_index = si, nullable = nu,
               spatial_index_reflected = reflected\<rparr>"

text \<open>
  \<^verbatim>\<open>column_info\<close> is a dictionary. The function reads the keys \<^verbatim>\<open>"type"\<close> and \<^verbatim>\<open>"name"\<close>
  with \<^verbatim>\<open>.get\<close>, which yields \<^verbatim>\<open>None\<close> for a missing key; every other key lives in the
  extension of the record.
\<close>

record column_info =
  ci_type :: "sa_type option"
  ci_name :: "string option"

record table =
  schema :: "string option"
  name :: string

text \<open>
  A result row has at least one column: it is its first column and the list of the others.
  The inspector's bound connection answers a query text with the rows of its result;
  \<^verbatim>\<open>text(...)\<close> only wraps the string. Failures of the connection itself are not the
  module's and are not modelled.
\<close>

type_synonym row = "sqlval \<times> sqlval list"

record inspector =
  bind_execute :: "string \<Rightarrow> row list"

text \<open>\<^verbatim>\<open>Result.one()\<close>: exactly one row, or an error.\<close>

fun one :: "row list \<Rightarrow> error + row" where
  "one [] = Inl NoResultFound"
| "one [r] = Inr r"
| "one (r # r' # rs) = Inl MultipleResultsFound"

text \<open>\<^verbatim>\<open>Result.scalar()\<close>: the first column of the first row, \<^verbatim>\<open>None\<close> when there is no row.\<close>

fun scalar :: "row list \<Rightarrow> sqlval" where
  "scalar [] = SqlNull"
| "scalar ((v, vs) # rs) = v"

text \<open>The unpacking \<^verbatim>\<open>a, b, c = row\<close> raises \<^verbatim>\<open>ValueError\<close> unless the row has three columns.\<close>

fun unpack3 :: "row \<Rightarrow> error + sqlval \<times> sqlval \<times> sqlval" where
  "unpack3 (a, [b, c]) = Inr (a, b, c)"
| "unpack3 (a, vs) = Inl ValueError"

subsection \<open>Reflection\<close>

definition POSSIBLE_TYPES :: "string list" where
  "POSSIBLE_TYPES =
     [''geometry'', ''point'', ''linestring'', ''polygon'', ''multipoint'',
      ''multilinestring'', ''multipolygon'', ''geometrycollection'']"

text \<open>\<^verbatim>\<open>isinstance(column_info.get("type"), (Geometry, NullType))\<close>\<close>

fun isinstance_Geometry_NullType :: "sa_type option \<Rightarrow> bool" where
  "isinstance_Geometry_NullType (Some (Geometry g)) = True"
| "isinstance_Geometry_NullType (Some NullType) = True"
| "isinstance_Geometry_NullType (Some (OtherType c)) = False"
| "isinstance_Geometry_NullType None = False"

text \<open>An optional string inside an f-string: \<^verbatim>\<open>None\<close> is rendered as \<^verbatim>\<open>None\<close>.\<close>

fun fmt :: "string option \<Rightarrow> string" where
  "fmt None = ''None''"
| "fmt (Some s) = s"

text \<open>The truth value of \<^verbatim>\<open>table.schema\<close>: \<^verbatim>\<open>None\<close> and the empty string are false.\<close>

fun truthy :: "string option \<Rightarrow> bool" where
  "truthy None = False"
| "truthy (Some s) = (s \<noteq> [])"

text \<open>A string between two apostrophes, as the query texts write their literals.\<close>

definition quoted :: "string \<Rightarrow> string" where
  "quoted s = CHR 0x27 # s @ [CHR 0x27]"

definition schema_filter :: "table \<Rightarrow> string" where
  "schema_filter tbl =
     (if truthy (schema tbl) then ''TABLE_SCHEMA = '' @ quoted (fmt (schema tbl)) @ '' and''
      else [])"

definition geometry_type_query :: "table \<Rightarrow> string option \<Rightarrow> string" where
  "geometry_type_query tbl column_name =
     ''\<newline>        SELECT \<newline>            DATA_TYPE, \<newline>            (SELECT TOP(1) [''
     @ fmt column_name @ ''].STSrid FROM ''
     @ (if truthy (schema tbl) then ''['' @ fmt (schema tbl) @ ''].'' else [])
     @ ''['' @ name tbl @ '']) AS SRS_ID, \<newline>            IS_NULLABLE\<newline>''
     @ ''        FROM INFORMATION_SCHEMA.COLUMNS\<newline>        WHERE \<newline>            ''
     @ schema_filter tbl
     @ ''\<newline>            TABLE_NAME = '' @ quoted (name tbl)
     @ '' \<newline>            and \<newline>            COLUMN_NAME = ''
     @ quoted (fmt column_name) @ ''\<newline>    ''"

definition has_index_query :: "table \<Rightarrow> string option \<Rightarrow> string" where
  "has_index_query tbl column_name =
     ''\<newline>        SELECT DISTINCT\<newline>            INDEX_TYPE\<newline>''
     @ ''        FROM INFORMATION_SCHEMA.STATISTICS\<newline>        WHERE \<newline>            ''
     @ schema_filter tbl
     @ ''\<newline>            TABLE_NAME = '' @ quoted (name tbl)
     @ '' \<newline>            and \<newline>            COLUMN_NAME = ''
     @ quoted (fmt column_name) @ ''\<newline>    ''"

text \<open>
  What a call leaves behind: the exception it raised, if any; \<^verbatim>\<open>column_info\<close> as it is after
  the call (the dictionary is mutated in place, so it is there after an exception too); and
  the query texts it sent to the connection, in order.
\<close>

record 'a outcome =
  raised :: "error option"
  info :: "'a column_info_scheme"
  issued :: "string list"

definition reflect_geometry_column ::
  "inspector \<Rightarrow> table \<Rightarrow> 'a column_info_scheme \<Rightarrow> 'a outcome" where
  "reflect_geometry_column insp tbl column_info =
     (if \<not> isinstance_Geometry_NullType (ci_type column_info)
      then \<lparr>raised = None, info = column_info, issued = []\<rparr>
      else
        let column_name = ci_name column_info;
            q1 = geometry_type_query tbl column_name
        in case one (bind_execute insp q1) of
             Inl e \<Rightarrow> \<lparr>raised = Some e, info = column_info, issued = [q1]\<rparr>
           | Inr r \<Rightarrow>
              (case unpack3 r of
                 Inl e \<Rightarrow> \<lparr>raised = Some e, info = column_info, issued = [q1]\<rparr>
               | Inr (geometry_type_v, srid_v, nullable_str) \<Rightarrow>
                  let is_nullable = (lower (py_str nullable_str) = ''yes'') in
                  if geometry_type_v \<notin> set (map SqlStr POSSIBLE_TYPES)
                  then \<lparr>raised = None, info = column_info, issued = [q1]\<rparr>
                  else
                    let q2 = has_index_query tbl column_name;
                        spatial_index_res = scalar (bind_execute insp q2);
                        spatial_index_v = (lower (py_str spatial_index_res) = ''spatial'')
                    in (case geometry_type_v of
                          SqlStr s \<Rightarrow>
                            \<lparr>raised = None,
                             info = column_info\<lparr>ci_type :=
                               Some (new_Geometry (upper s) srid_v spatial_index_v is_nullable True)\<rparr>,
                             issued = [q1, q2]\<rparr>
                        | _ \<Rightarrow> \<lparr>raised = Some AttributeError, info = column_info,
                                issued = [q1, q2]\<rparr>)))"

subsection \<open>Compilation\<close>

text \<open>
  The literal value of a bind parameter. \<^verbatim>\<open>bytes\<close> and \<^verbatim>\<open>memoryview\<close> carry a sequence of
  octets; \<^verbatim>\<open>memoryview.tobytes()\<close> yields the \<^verbatim>\<open>bytes\<close> of the same octets.
\<close>

datatype pyvalue =
    PyNone
  | PyStr string
  | PyInt int
  | PyBytes "8 word list"
  | PyMemoryview "8 word list"

text \<open>
  An argument expression of a function element: a bind parameter, which has the attribute
  \<^verbatim>\<open>value\<close>, or another expression (a column, a nested call), which has not; the latter is
  named by its text.
\<close>

datatype clause = BindParameter pyvalue | OtherClause string

text \<open>
  The function element being compiled: the class it is an instance of (the abstract function
  name, by which rules are dispatched), its \<^verbatim>\<open>identifier\<close>, its argument expressions
  \<^verbatim>\<open>clauses\<close>, and \<^verbatim>\<open>element.type.srid\<close>.
\<close>

record element =
  cls :: string
  "identifier" :: string
  clauses :: "clause list"
  type_srid :: int

text \<open>
  The active SQL compiler renders a clause list to text, given the keyword options \<^verbatim>\<open>**kw\<close>
  that every rule passes through.
\<close>

record 'k compiler =
  process :: "'k \<Rightarrow> clause list \<Rightarrow> string"

text \<open>
  A rule returns the text or the exception raised, together with the element as the rule
  leaves it: two rules assign to fields of the element.
\<close>

type_synonym 'k renderer = "element \<Rightarrow> 'k compiler \<Rightarrow> 'k \<Rightarrow> (error + string) \<times> element"

text \<open>
  The dispatch table that SQLAlchemy's \<^verbatim>\<open>compiles(cls, dialect)\<close> decorator fills: one rule
  for a pair of expression class and dialect name, a later registration replacing an
  earlier one.
\<close>

type_synonym 'k registry = "string \<times> string \<Rightarrow> 'k renderer option"

definition compiles :: "string \<Rightarrow> string \<Rightarrow> 'k renderer \<Rightarrow> 'k registry \<Rightarrow> 'k registry" where
  "compiles c dialect rule reg = reg((c, dialect) \<mapsto> rule)"

text \<open>
  Compiling an element for a dialect applies the rule registered for its class; \<open>None\<close>
  stands for the toolkit's default rendering, where no rule is registered.
\<close>

definition compile_element ::
  "'k registry \<Rightarrow> string \<Rightarrow> element \<Rightarrow> 'k compiler \<Rightarrow> 'k \<Rightarrow> ((error + string) \<times> element) option" where
  "compile_element reg dialect el compiler kw =
     (case reg (cls el, dialect) of
        None \<Rightarrow> None
      | Some rule \<Rightarrow> Some (rule el compiler kw))"

definition MSSQL_FUNCTIONS :: "(string \<times> string) list" where
  "MSSQL_FUNCTIONS = [(''ST_AsBinary'', ''STAsBinary''), (''ST_AsEWKB'', ''STAsBinary'')]"

text \<open>The closure \<^verbatim>\<open>_compile_mssql\<close> that \<^verbatim>\<open>_compiles_mssql(cls, fn)\<close> builds for \<^verbatim>\<open>fn\<close>.\<close>

definition compile_mssql :: "string \<Rightarrow> 'k renderer" where
  "compile_mssql fn el compiler kw =
     (Inr (''('' @ process compiler kw (clauses el) @ '').'' @ fn @ ''()''), el)"

text \<open>
  \<^verbatim>\<open>getattr(functions, cls)\<close> raises \<^verbatim>\<open>AttributeError\<close> for a name the functions module does
  not define. The names it defines are a parameter.
\<close>

definition compiles_mssql ::
  "string set \<Rightarrow> string \<Rightarrow> string \<Rightarrow> 'k registry \<Rightarrow> error + 'k registry" where
  "compiles_mssql functions c fn reg =
     (if c \<in> functions then Inr (compiles c ''mssql'' (compile_mssql fn) reg)
      else Inl AttributeError)"

text \<open>
  The loop over \<^verbatim>\<open>mapping.items()\<close>, in the dictionary's order. An exception ends it; the
  rules registered before stay registered.
\<close>

fun register_mssql_mapping ::
  "string set \<Rightarrow> (string \<times> string) list \<Rightarrow> 'k registry \<Rightarrow> error option \<times> 'k registry" where
  "register_mssql_mapping functions [] reg = (None, reg)"
| "register_mssql_mapping functions ((c, fn) # mapping) reg =
     (case compiles_mssql functions c fn reg of
        Inl e \<Rightarrow> (Some e, reg)
      | Inr reg' \<Rightarrow> register_mssql_mapping functions mapping reg')"

definition compile_GeomFromText_MsSql :: "'k renderer" where
  "compile_GeomFromText_MsSql el compiler kw =
     (let el = el\<lparr>identifier := ''geography::STGeomFromText''\<rparr>;
          compiled = process compiler kw (clauses el);
          srid_v = type_srid el
      in if srid_v > 0
         then (Inr (identifier el @ ''('' @ compiled @ '', '' @ str_int srid_v @ '')''), el)
         else (Inr (identifier el @ ''('' @ compiled @ '', 4326)''), el))"

definition compile_GeomFromWKB_MsSql :: "'k renderer" where
  "compile_GeomFromWKB_MsSql el compiler kw =
     (let el = el\<lparr>identifier := ''geography::STGeomFromWKB''\<rparr> in
      case clauses el of
        [] \<Rightarrow> (Inl IndexError, el)
      | OtherClause x # rest \<Rightarrow> (Inl AttributeError, el)
      | BindParameter wkb_data # rest \<Rightarrow>
          let el = (case wkb_data of
                      PyMemoryview octets \<Rightarrow>
                        el\<lparr>clauses := (clauses el)[0 := BindParameter (PyBytes octets)]\<rparr>
                    | _ \<Rightarrow> el);
              compiled = process compiler kw (clauses el);
              srid_v = type_srid el
          in if srid_v > 0
             then (Inr (identifier el @ ''('' @ compiled @ '', '' @ str_int srid_v @ '')''), el)
             else (Inr (identifier el @ ''('' @ compiled @ '')''), el))"

definition MSSQL_ST_GeomFromText :: "'k renderer" where
  "MSSQL_ST_GeomFromText el compiler kw = compile_GeomFromText_MsSql el compiler kw"

definition MSSQL_ST_GeomFromEWKT :: "'k renderer" where
  "MSSQL_ST_GeomFromEWKT el compiler kw = compile_GeomFromText_MsSql el compiler kw"

definition MSSQL_ST_GeomFromWKB :: "'k renderer" where
  "MSSQL_ST_GeomFromWKB el compiler kw = compile_GeomFromWKB_MsSql el compiler kw"

definition MSSQL_ST_GeomFromEWKB :: "'k renderer" where
  "MSSQL_ST_GeomFromEWKB el compiler kw = compile_GeomFromWKB_MsSql el compiler kw"

text \<open>
  A decorator \<^verbatim>\<open>@compiles(functions.X, "mssql")\<close> at module level: the attribute lookup
  fails where the functions module lacks \<^verbatim>\<open>X\<close>, otherwise the rule is registered.
\<close>

definition decorate ::
  "string set \<Rightarrow> string \<Rightarrow> 'k renderer \<Rightarrow> 'k registry \<Rightarrow> error + 'k registry" where
  "decorate functions c rule reg =
     (if c \<in> functions then Inr (compiles c ''mssql'' rule reg) else Inl AttributeError)"

text \<open>
  The statements the module runs when it is imported, in their order: the default mapping,
  then the four decorated rules. The first exception ends the import.
\<close>

definition load_module :: "string set \<Rightarrow> 'k registry \<Rightarrow> error option \<times> 'k registry" where
  "load_module functions reg0 =
     (case register_mssql_mapping functions MSSQL_FUNCTIONS reg0 of
        (Some e, reg1) \<Rightarrow> (Some e, reg1)
      | (None, reg1) \<Rightarrow>
         (case decorate functions ''ST_GeomFromText'' MSSQL_ST_GeomFromText reg1 of
            Inl e \<Rightarrow> (Some e, reg1)
          | Inr reg2 \<Rightarrow>
             (case decorate functions ''ST_GeomFromEWKT'' MSSQL_ST_GeomFromEWKT reg2 of
                Inl e \<Rightarrow> (Some e, reg2)
              | Inr reg3 \<Rightarrow>
                 (case decorate functions ''ST_GeomFromWKB'' MSSQL_ST_GeomFromWKB reg3 of
                    Inl e \<Rightarrow> (Some e, reg3)
                  | Inr reg4 \<Rightarrow>
                     (case decorate functions ''ST_GeomFromEWKB'' MSSQL_ST_GeomFromEWKB reg4 of
                        Inl e \<Rightarrow> (Some e, reg4)
                      | Inr reg5 \<Rightarrow> (None, reg5))))))"

text \<open>
  The attributes of the functions module that the module's own statements look up while it
  is imported.
\<close>

definition required_functions :: "string set" where
  "required_functions =
     {''ST_AsBinary'', ''ST_AsEWKB'', ''ST_GeomFromText'', ''ST_GeomFromEWKT'',
      ''ST_GeomFromWKB'', ''ST_GeomFromEWKB''}"

subsection \<open>Example inputs\<close>

text \<open>
  Concrete collaborators for the examples below: an inspector that answers one query text
  with given rows and every other query with other rows, a table, two columns, and a compiler
  that renders a clause list the way a literal-rendering SQL compiler would, distinguishing
  an immutable byte sequence from a byte view.
\<close>

definition stub_inspector :: "string \<Rightarrow> row list \<Rightarrow> row list \<Rightarrow> inspector" where
  "stub_inspector q rows others = \<lparr>bind_execute = (\<lambda>q'. if q' = q then rows else others)\<rparr>"

definition lake :: table where
  "lake = \<lparr>schema = Some ''dbo'', name = ''lake''\<rparr>"

definition geom_column :: column_info where
  "geom_column = \<lparr>ci_type = Some NullType, ci_name = Some ''geom''\<rparr>"

definition id_column :: column_info where
  "id_column = \<lparr>ci_type = Some (OtherType ''Integer''), ci_name = Some ''id''\<rparr>"

fun render_clause :: "clause \<Rightarrow> string" where
  "render_clause (BindParameter PyNone) = ''NULL''"
| "render_clause (BindParameter (PyStr s)) = quoted s"
| "render_clause (BindParameter (PyInt i)) = str_int i"
| "render_clause (BindParameter (PyBytes octets)) = ''<bytes:'' @ str_nat (length octets) @ ''>''"
| "render_clause (BindParameter (PyMemoryview octets)) =
     ''<memoryview:'' @ str_nat (length octets) @ ''>''"
| "render_clause (OtherClause t) = t"

fun comma_join :: "string list \<Rightarrow> string" where
  "comma_join [] = []"
| "comma_join [x] = x"
| "comma_join (x # y # ys) = x @ '', '' @ comma_join (y # ys)"

definition demo_compiler :: "unit compiler" where
  "demo_compiler = \<lparr>process = (\<lambda>kw cs. comma_join (map render_clause cs))\<rparr>"

definition no_rules :: "unit registry" where
  "no_rules = Map.empty"

section \<open>Properties\<close>

subsection \<open>Case folding\<close>

text \<open>
  Lower-casing a string gives a string \<open>t\<close> without capital letters exactly when the string
  equals \<open>t\<close> under case-insensitive comparison.
\<close>

lemma lower_char_same_letter:
  assumes "\<not> is_upper b"
  shows "lower_char a = b \<longleftrightarrow> same_letter a b"
proof (cases "is_upper a")
  case True
  then have bound: "(of_char a :: nat) + 32 < 256"
    by (simp add: is_upper_def)
  have "char_of ((of_char a :: nat) + 32) = b \<longleftrightarrow> (of_char b :: nat) = of_char a + 32"
  proof
    assume "char_of ((of_char a :: nat) + 32) = b"
    then have "(of_char b :: nat) = (of_char a + 32) mod 256"
      by (metis of_char_of)
    with bound show "(of_char b :: nat) = of_char a + 32"
      by simp
  next
    assume "(of_char b :: nat) = of_char a + 32"
    then have "char_of (of_char b :: nat) = char_of ((of_char a :: nat) + 32)"
      by simp
    then show "char_of ((of_char a :: nat) + 32) = b"
      by simp
  qed
  moreover have "a \<noteq> b"
    using True assms by auto
  ultimately show ?thesis
    using True assms by (simp add: lower_char_def same_letter_def)
next
  case False
  then show ?thesis
    using assms by (auto simp: lower_char_def same_letter_def)
qed

lemma lower_eq_caseless:
  "list_all (\<lambda>c. \<not> is_upper c) t \<Longrightarrow> lower s = t \<longleftrightarrow> caseless_eq s t"
proof (induction s arbitrary: t)
  case Nil
  show ?case
    by (auto simp: lower_def caseless_eq_def)
next
  case (Cons a s)
  show ?case
  proof (cases t)
    case Nil
    then show ?thesis
      by (simp add: lower_def caseless_eq_def)
  next
    case (Cons b u)
    with Cons.prems have b: "\<not> is_upper b" and u: "list_all (\<lambda>c. \<not> is_upper c) u"
      by simp_all
    from Cons.IH [OF u] lower_char_same_letter [OF b, of a] show ?thesis
      by (simp add: Cons lower_def caseless_eq_def)
  qed
qed

lemma yes_lowercase: "list_all (\<lambda>c. \<not> is_upper c) ''yes''"
  by (simp add: is_upper_def)

lemma spatial_lowercase: "list_all (\<lambda>c. \<not> is_upper c) ''spatial''"
  by (simp add: is_upper_def)

text \<open>The text of an integer starts with a digit or a minus sign, never with a letter.\<close>

lemma str_nat_hd:
  "\<exists>c cs. str_nat n = c # cs \<and> 48 \<le> (of_char c :: nat) \<and> (of_char c :: nat) \<le> 57"
proof (induction n rule: str_nat.induct)
  case (1 n)
  show ?case
  proof (cases "n < 10")
    case True
    then show ?thesis
      by (subst str_nat.simps) (simp add: digit_char_def)
  next
    case False
    with 1 obtain c cs where "str_nat (n div 10) = c # cs"
      and "48 \<le> (of_char c :: nat)" and "(of_char c :: nat) \<le> 57"
      by blast
    with False show ?thesis
      by (subst str_nat.simps) simp
  qed
qed

lemma str_int_hd: "\<exists>c cs. str_int i = c # cs \<and> (of_char c :: nat) \<le> 57"
  using str_nat_hd [of "nat i"] str_nat_hd [of "nat (- i)"]
  by (auto simp: str_int_def)

lemma str_int_not_yes: "\<not> caseless_eq (str_int i) ''yes''"
proof
  assume a: "caseless_eq (str_int i) ''yes''"
  obtain c cs where s: "str_int i = c # cs" and le: "(of_char c :: nat) \<le> 57"
    using str_int_hd by blast
  from a s have "65 \<le> (of_char c :: nat)"
    by (auto simp: caseless_eq_def same_letter_def is_upper_def)
  with le show False by simp
qed

lemma str_int_not_spatial: "\<not> caseless_eq (str_int i) ''spatial''"
proof
  assume a: "caseless_eq (str_int i) ''spatial''"
  obtain c cs where s: "str_int i = c # cs" and le: "(of_char c :: nat) \<le> 57"
    using str_int_hd by blast
  from a s have "65 \<le> (of_char c :: nat)"
    by (auto simp: caseless_eq_def same_letter_def is_upper_def)
  with le show False by simp
qed

lemma lower_str_yes:
  "lower (py_str v) = ''yes'' \<longleftrightarrow> (case v of SqlStr s \<Rightarrow> caseless_eq s ''yes'' | _ \<Rightarrow> False)"
  using str_int_not_yes
  by (cases v)
    (simp_all add: lower_eq_caseless [OF yes_lowercase] caseless_eq_def same_letter_def
      is_upper_def)

lemma lower_str_spatial:
  "lower (py_str v) = ''spatial'' \<longleftrightarrow>
     (case v of SqlStr s \<Rightarrow> caseless_eq s ''spatial'' | _ \<Rightarrow> False)"
  using str_int_not_spatial
  by (cases v)
    (simp_all add: lower_eq_caseless [OF spatial_lowercase] caseless_eq_def same_letter_def
      is_upper_def)

lemma upper_POSSIBLE_TYPES:
  "map upper POSSIBLE_TYPES =
     [''GEOMETRY'', ''POINT'', ''LINESTRING'', ''POLYGON'', ''MULTIPOINT'',
      ''MULTILINESTRING'', ''MULTIPOLYGON'', ''GEOMETRYCOLLECTION'']"
  by code_simp

subsection \<open>Reflection\<close>

text \<open>
  The one path on which a descriptor is built: the declared type is a \<^verbatim>\<open>Geometry\<close> or a
  \<^verbatim>\<open>NullType\<close>, the metadata query has exactly one row of three columns, and its type name
  is a member of \<^const>\<open>POSSIBLE_TYPES\<close>.
\<close>

lemma reflect_constructs:
  assumes "isinstance_Geometry_NullType (ci_type ci)"
    and "bind_execute insp (geometry_type_query tbl (ci_name ci)) = [(SqlStr gt, [sr, nu])]"
    and "gt \<in> set POSSIBLE_TYPES"
  shows "reflect_geometry_column insp tbl ci =
     \<lparr>raised = None,
      info = ci\<lparr>ci_type := Some (new_Geometry (upper gt) sr
        (lower (py_str (scalar (bind_execute insp (has_index_query tbl (ci_name ci))))) = ''spatial'')
        (lower (py_str nu) = ''yes'') True)\<rparr>,
      issued = [geometry_type_query tbl (ci_name ci), has_index_query tbl (ci_name ci)]\<rparr>"
  using assms by (simp add: reflect_geometry_column_def Let_def)

lemma queries_differ: "has_index_query tbl cn \<noteq> geometry_type_query tbl cn"
  by (simp add: has_index_query_def geometry_type_query_def)

text \<open>
  Claim C1, as amended. The membership test \<^verbatim>\<open>geometry_type not in _POSSIBLE_TYPES\<close> compares
  the native type name as it is, so the claim holds for a name that is one of the eight
  lower-case names: then the call raises nothing and assigns to \<^verbatim>\<open>column_info["type"]\<close> a
  \<^verbatim>\<open>Geometry\<close> whose \<^verbatim>\<open>geometry_type\<close> is the upper-cased name, one of the eight
  upper-case names.
\<close>

theorem reflect_recognized_type:
  assumes "isinstance_Geometry_NullType (ci_type ci)"
    and "bind_execute insp (geometry_type_query tbl (ci_name ci)) = [(SqlStr gt, [sr, nu])]"
    and "gt \<in> set POSSIBLE_TYPES"
  shows "raised (reflect_geometry_column insp tbl ci) = None
       \<and> (\<exists>g. ci_type (info (reflect_geometry_column insp tbl ci)) = Some (Geometry g)
              \<and> geometry_type g = upper gt
              \<and> geometry_type g \<in> set [''GEOMETRY'', ''POINT'', ''LINESTRING'', ''POLYGON'',
                    ''MULTIPOINT'', ''MULTILINESTRING'', ''MULTIPOLYGON'', ''GEOMETRYCOLLECTION''])"
proof -
  from assms(3) have "upper gt \<in> set (map upper POSSIBLE_TYPES)"
    by simp
  then have "upper gt \<in> set [''GEOMETRY'', ''POINT'', ''LINESTRING'', ''POLYGON'',
      ''MULTIPOINT'', ''MULTILINESTRING'', ''MULTIPOLYGON'', ''GEOMETRYCOLLECTION'']"
    by (simp only: upper_POSSIBLE_TYPES)
  then show ?thesis
    by (simp add: reflect_constructs [OF assms] new_Geometry_def)
qed

text \<open>
  An instance of C1 as amended: the native type name \<^verbatim>\<open>point\<close> on a \<^verbatim>\<open>NullType\<close> column
  gives a \<^verbatim>\<open>Geometry\<close> of subtype \<^verbatim>\<open>POINT\<close>.
\<close>

theorem reflect_recognized_type_witness:
  "isinstance_Geometry_NullType (ci_type geom_column)
   \<and> ''point'' \<in> set POSSIBLE_TYPES
   \<and> raised (reflect_geometry_column
        (stub_inspector (geometry_type_query lake (Some ''geom''))
           [(SqlStr ''point'', [SqlInt 4326, SqlStr ''YES''])] [])
        lake geom_column) = None
   \<and> (\<exists>g. ci_type (info (reflect_geometry_column
        (stub_inspector (geometry_type_query lake (Some ''geom''))
           [(SqlStr ''point'', [SqlInt 4326, SqlStr ''YES''])] [])
        lake geom_column)) = Some (Geometry g)
      \<and> geometry_type g = ''POINT'')"
proof -
  have up: "upper ''point'' = ''POINT''"
    by code_simp
  show ?thesis
    using reflect_recognized_type [where ci = geom_column and tbl = lake and gt = "''point''"
        and sr = "SqlInt 4326" and nu = "SqlStr ''YES''"
        and insp = "stub_inspector (geometry_type_query lake (Some ''geom''))
             [(SqlStr ''point'', [SqlInt 4326, SqlStr ''YES''])] []"]
    by (auto simp: geom_column_def stub_inspector_def POSSIBLE_TYPES_def up)
qed

text \<open>
  C1 as stated fails: the native type name \<^verbatim>\<open>POINT\<close> equals the recognized name \<^verbatim>\<open>point\<close>
  under case-insensitive comparison, yet the call returns after the first query and leaves
  \<^verbatim>\<open>column_info\<close>, with its \<^verbatim>\<open>NullType\<close>, as it was.
\<close>

theorem reflect_case_insensitive_counterexample:
  "''point'' \<in> set POSSIBLE_TYPES
   \<and> caseless_eq ''POINT'' ''point''
   \<and> reflect_geometry_column
        (stub_inspector (geometry_type_query lake (Some ''geom''))
           [(SqlStr ''POINT'', [SqlInt 4326, SqlStr ''YES''])] [])
        lake geom_column
     = \<lparr>raised = None, info = geom_column, issued = [geometry_type_query lake (Some ''geom'')]\<rparr>
   \<and> ci_type geom_column = Some NullType"
  by (simp add: reflect_geometry_column_def POSSIBLE_TYPES_def caseless_eq_def same_letter_def
      is_upper_def Let_def stub_inspector_def geom_column_def)

text \<open>
  Claim C6. When the metadata query has one row and its native type name is not a member of
  the recognized enumeration, the call raises nothing and \<^verbatim>\<open>column_info\<close>, its \<^verbatim>\<open>"type"\<close>
  included, is what it was.
\<close>
theorem reflect_unrecognized_type:
  assumes "bind_execute insp (geometry_type_query tbl (ci_name ci)) = [(gv, [sr, nu])]"
    and "gv \<notin> set (map SqlStr POSSIBLE_TYPES)"
  shows "raised (reflect_geometry_column insp tbl ci) = None
       \<and> info (reflect_geometry_column insp tbl ci) = ci"
  using assms by (simp add: reflect_geometry_column_def Let_def)

text \<open>
  An instance of C6: the engine reports \<^verbatim>\<open>geography\<close>, which is not in the enumeration.
\<close>
theorem reflect_unrecognized_type_witness:
  "SqlStr ''geography'' \<notin> set (map SqlStr POSSIBLE_TYPES)
   \<and> raised (reflect_geometry_column
        (stub_inspector (geometry_type_query lake (Some ''geom''))
           [(SqlStr ''geography'', [SqlInt 4326, SqlStr ''YES''])] [(SqlStr ''SPATIAL'', [])])
        lake geom_column) = None
   \<and> info (reflect_geometry_column
        (stub_inspector (geometry_type_query lake (Some ''geom''))
           [(SqlStr ''geography'', [SqlInt 4326, SqlStr ''YES''])] [(SqlStr ''SPATIAL'', [])])
        lake geom_column) = geom_column"
  using reflect_unrecognized_type [where ci = geom_column and tbl = lake
      and gv = "SqlStr ''geography''" and sr = "SqlInt 4326" and nu = "SqlStr ''YES''"
      and insp = "stub_inspector (geometry_type_query lake (Some ''geom''))
           [(SqlStr ''geography'', [SqlInt 4326, SqlStr ''YES''])] [(SqlStr ''SPATIAL'', [])]"]
  by (simp add: geom_column_def stub_inspector_def POSSIBLE_TYPES_def)

text \<open>
  Claim C7. When the declared type of the column is neither a \<^verbatim>\<open>NullType\<close> nor a
  \<^verbatim>\<open>Geometry\<close>, the call returns at once: no exception, \<^verbatim>\<open>column_info\<close> untouched, no
  query sent.
\<close>
theorem reflect_typed_column:
  assumes "\<not> isinstance_Geometry_NullType (ci_type ci)"
  shows "reflect_geometry_column insp tbl ci = \<lparr>raised = None, info = ci, issued = []\<rparr>"
  using assms by (simp add: reflect_geometry_column_def)

text \<open>An instance of C7: an \<^verbatim>\<open>Integer\<close> column.\<close>
theorem reflect_typed_column_witness:
  "\<not> isinstance_Geometry_NullType (ci_type id_column)
   \<and> reflect_geometry_column
        (stub_inspector (geometry_type_query lake (Some ''id''))
           [(SqlStr ''point'', [SqlInt 4326, SqlStr ''YES''])] [])
        lake id_column
     = \<lparr>raised = None, info = id_column, issued = []\<rparr>"
  using reflect_typed_column [where ci = id_column and tbl = lake
      and insp = "stub_inspector (geometry_type_query lake (Some ''id''))
           [(SqlStr ''point'', [SqlInt 4326, SqlStr ''YES''])] []"]
  by (simp add: id_column_def)

text \<open>
  Claim C8. On every call that builds a descriptor, its \<^verbatim>\<open>nullable\<close> flag is true exactly
  when the \<^verbatim>\<open>IS_NULLABLE\<close> value of the row is a string equal to \<^verbatim>\<open>yes\<close> under
  case-insensitive comparison; \<^verbatim>\<open>NULL\<close> and numbers give false.
\<close>
theorem reflect_nullable_flag:
  assumes "isinstance_Geometry_NullType (ci_type ci)"
    and "bind_execute insp (geometry_type_query tbl (ci_name ci)) = [(SqlStr gt, [sr, nu])]"
    and "gt \<in> set POSSIBLE_TYPES"
  shows "\<exists>g. ci_type (info (reflect_geometry_column insp tbl ci)) = Some (Geometry g)
           \<and> nullable g = (case nu of SqlStr s \<Rightarrow> caseless_eq s ''yes'' | _ \<Rightarrow> False)"
  by (simp add: reflect_constructs [OF assms] new_Geometry_def lower_str_yes)

text \<open>
  Instances of C8: \<^verbatim>\<open>YES\<close>, \<^verbatim>\<open>yes\<close> and \<^verbatim>\<open>Yes\<close> give true, \<^verbatim>\<open>NO\<close> and \<^verbatim>\<open>NULL\<close> give false.
\<close>
theorem reflect_nullable_flag_witness:
  "(\<exists>g. ci_type (info (reflect_geometry_column
        (stub_inspector (geometry_type_query lake (Some ''geom''))
           [(SqlStr ''point'', [SqlInt 4326, SqlStr ''YES''])] [])
        lake geom_column)) = Some (Geometry g) \<and> nullable g = True)
   \<and> (\<exists>g. ci_type (info (reflect_geometry_column
        (stub_inspector (geometry_type_query lake (Some ''geom''))
           [(SqlStr ''point'', [SqlInt 4326, SqlStr ''yes''])] [])
        lake geom_column)) = Some (Geometry g) \<and> nullable g = True)
   \<and> (\<exists>g. ci_type (info (reflect_geometry_column
        (stub_inspector (geometry_type_query lake (Some ''geom''))
           [(SqlStr ''point'', [SqlInt 4326, SqlStr ''Yes''])] [])
        lake geom_column)) = Some (Geometry g) \<and> nullable g = True)
   \<and> (\<exists>g. ci_type (info (reflect_geometry_column
        (stub_inspector (geometry_type_query lake (Some ''geom''))
           [(SqlStr ''point'', [SqlInt 4326, SqlStr ''NO''])] [])
        lake geom_column)) = Some (Geometry g) \<and> nullable g = False)
   \<and> (\<exists>g. ci_type (info (reflect_geometry_column
        (stub_inspector (geometry_type_query lake (Some ''geom''))
           [(SqlStr ''point'', [SqlInt 4326, SqlNull])] [])
        lake geom_column)) = Some (Geometry g) \<and> nullable g = False)"
proof -
  have pre: "isinstance_Geometry_NullType (ci_type geom_column)"
    "''point'' \<in> set POSSIBLE_TYPES"
    "\<And>nu. bind_execute (stub_inspector (geometry_type_query lake (Some ''geom''))
        [(SqlStr ''point'', [SqlInt 4326, nu])] [])
        (geometry_type_query lake (ci_name geom_column)) = [(SqlStr ''point'', [SqlInt 4326, nu])]"
    by (simp_all add: geom_column_def POSSIBLE_TYPES_def stub_inspector_def)
  have ev: "caseless_eq ''YES'' ''yes''" "caseless_eq ''yes'' ''yes''" "caseless_eq ''Yes'' ''yes''"
    "\<not> caseless_eq ''NO'' ''yes''"
    by (simp_all add: caseless_eq_def same_letter_def is_upper_def)
  show ?thesis
    using reflect_nullable_flag [OF pre(1) pre(3) pre(2), of "SqlStr ''YES''"]
      reflect_nullable_flag [OF pre(1) pre(3) pre(2), of "SqlStr ''yes''"]
      reflect_nullable_flag [OF pre(1) pre(3) pre(2), of "SqlStr ''Yes''"]
      reflect_nullable_flag [OF pre(1) pre(3) pre(2), of "SqlStr ''NO''"]
      reflect_nullable_flag [OF pre(1) pre(3) pre(2), of SqlNull]
    by (simp add: ev)
qed

text \<open>
  Claim C9. On every call that builds a descriptor, its \<^verbatim>\<open>spatial_index\<close> flag is true
  exactly when the index query has a row and the first column of its first row is a string
  equal to \<^verbatim>\<open>spatial\<close> under case-insensitive comparison; with no row, or any other
  value, the flag is false.
\<close>
theorem reflect_spatial_index_flag:
  assumes "isinstance_Geometry_NullType (ci_type ci)"
    and "bind_execute insp (geometry_type_query tbl (ci_name ci)) = [(SqlStr gt, [sr, nu])]"
    and "gt \<in> set POSSIBLE_TYPES"
  shows "\<exists>g. ci_type (info (reflect_geometry_column insp tbl ci)) = Some (Geometry g)
           \<and> spatial_index g =
               (case bind_execute insp (has_index_query tbl (ci_name ci)) of
                  [] \<Rightarrow> False
                | (SqlStr s, vs) # rows \<Rightarrow> caseless_eq s ''spatial''
                | _ \<Rightarrow> False)"
proof -
  let ?rows = "bind_execute insp (has_index_query tbl (ci_name ci))"
  have "lower (py_str (scalar ?rows)) = ''spatial'' \<longleftrightarrow>
      (case scalar ?rows of SqlStr s \<Rightarrow> caseless_eq s ''spatial'' | _ \<Rightarrow> False)"
    by (rule lower_str_spatial)
  also have "\<dots> \<longleftrightarrow>
      (case ?rows of [] \<Rightarrow> False | (SqlStr s, vs) # rows \<Rightarrow> caseless_eq s ''spatial'' | _ \<Rightarrow> False)"
    by (cases ?rows rule: scalar.cases) (simp_all split: sqlval.splits)
  finally show ?thesis
    by (simp add: reflect_constructs [OF assms] new_Geometry_def)
qed

text \<open>
  Instances of C9: \<^verbatim>\<open>SPATIAL\<close> gives true, \<^verbatim>\<open>BTREE\<close> gives false, no row gives false.
\<close>
theorem reflect_spatial_index_flag_witness:
  "(\<exists>g. ci_type (info (reflect_geometry_column
        (stub_inspector (geometry_type_query lake (Some ''geom''))
           [(SqlStr ''point'', [SqlInt 4326, SqlStr ''YES''])] [(SqlStr ''SPATIAL'', [])])
        lake geom_column)) = Some (Geometry g) \<and> spatial_index g = True)
   \<and> (\<exists>g. ci_type (info (reflect_geometry_column
        (stub_inspector (geometry_type_query lake (Some ''geom''))
           [(SqlStr ''point'', [SqlInt 4326, SqlStr ''YES''])] [(SqlStr ''BTREE'', [])])
        lake geom_column)) = Some (Geometry g) \<and> spatial_index g = False)
   \<and> (\<exists>g. ci_type (info (reflect_geometry_column
        (stub_inspector (geometry_type_query lake (Some ''geom''))
           [(SqlStr ''point'', [SqlInt 4326, SqlStr ''YES''])] [])
        lake geom_column)) = Some (Geometry g) \<and> spatial_index g = False)"
proof -
  have pre: "isinstance_Geometry_NullType (ci_type geom_column)"
    "''point'' \<in> set POSSIBLE_TYPES"
    "\<And>others. bind_execute (stub_inspector (geometry_type_query lake (Some ''geom''))
        [(SqlStr ''point'', [SqlInt 4326, SqlStr ''YES''])] others)
        (geometry_type_query lake (ci_name geom_column))
        = [(SqlStr ''point'', [SqlInt 4326, SqlStr ''YES''])]"
    by (simp_all add: geom_column_def POSSIBLE_TYPES_def stub_inspector_def)
  have idx: "\<And>others. bind_execute (stub_inspector (geometry_type_query lake (Some ''geom''))
        [(SqlStr ''point'', [SqlInt 4326, SqlStr ''YES''])] others)
        (has_index_query lake (ci_name geom_column)) = others"
    by (simp add: geom_column_def stub_inspector_def queries_differ)
  have ev: "caseless_eq ''SPATIAL'' ''spatial''" "\<not> caseless_eq ''BTREE'' ''spatial''"
    by (simp_all add: caseless_eq_def same_letter_def is_upper_def)
  show ?thesis
    using reflect_spatial_index_flag [OF pre(1) pre(3) pre(2), of "[(SqlStr ''SPATIAL'', [])]"]
      reflect_spatial_index_flag [OF pre(1) pre(3) pre(2), of "[(SqlStr ''BTREE'', [])]"]
      reflect_spatial_index_flag [OF pre(1) pre(3) pre(2), of "[]"]
    by (simp add: ev idx)
qed

text \<open>\<^verbatim>\<open>one()\<close> fails on every result that has not exactly one row.\<close>
lemma one_error:
  "length rows \<noteq> 1 \<Longrightarrow> one rows = Inl (if rows = [] then NoResultFound else MultipleResultsFound)"
  by (cases rows rule: one.cases) simp_all

text \<open>
  Claim C10. When the metadata query has no row or more than one, the call raises the error
  of \<^verbatim>\<open>one()\<close> as it is, after that single query, and \<^verbatim>\<open>column_info\<close> is what it was.
\<close>
theorem reflect_cardinality_error:
  assumes "isinstance_Geometry_NullType (ci_type ci)"
    and "length (bind_execute insp (geometry_type_query tbl (ci_name ci))) \<noteq> 1"
  shows "reflect_geometry_column insp tbl ci =
     \<lparr>raised = Some (if bind_execute insp (geometry_type_query tbl (ci_name ci)) = []
                     then NoResultFound else MultipleResultsFound),
      info = ci, issued = [geometry_type_query tbl (ci_name ci)]\<rparr>"
  using assms(1) by (simp add: reflect_geometry_column_def Let_def one_error [OF assms(2)])

text \<open>Instances of C10: an empty result and a result of two rows.\<close>
theorem reflect_cardinality_error_witness:
  "reflect_geometry_column (stub_inspector (geometry_type_query lake (Some ''geom'')) [] [])
        lake geom_column
     = \<lparr>raised = Some NoResultFound, info = geom_column,
        issued = [geometry_type_query lake (Some ''geom'')]\<rparr>
   \<and> reflect_geometry_column
        (stub_inspector (geometry_type_query lake (Some ''geom''))
           [(SqlStr ''point'', [SqlInt 4326, SqlStr ''YES'']),
            (SqlStr ''point'', [SqlInt 4326, SqlStr ''YES''])] [])
        lake geom_column
     = \<lparr>raised = Some MultipleResultsFound, info = geom_column,
        issued = [geometry_type_query lake (Some ''geom'')]\<rparr>"
  using reflect_cardinality_error [where ci = geom_column and tbl = lake
      and insp = "stub_inspector (geometry_type_query lake (Some ''geom'')) [] []"]
    reflect_cardinality_error [where ci = geom_column and tbl = lake
      and insp = "stub_inspector (geometry_type_query lake (Some ''geom''))
           [(SqlStr ''point'', [SqlInt 4326, SqlStr ''YES'']),
            (SqlStr ''point'', [SqlInt 4326, SqlStr ''YES''])] []"]
  by (simp add: geom_column_def stub_inspector_def)

subsection \<open>Registration of compilation rules\<close>

text \<open>A registration changes the rule of one pair of class and dialect only.\<close>
lemma compiles_other:
  "k \<noteq> (c, dialect) \<Longrightarrow> compiles c dialect rule reg k = reg k"
  by (simp add: compiles_def)

lemma compiles_same:
  "compiles c dialect rule reg (c, dialect) = Some rule"
  by (simp add: compiles_def)

text \<open>
  \<^const>\<open>register_mssql_mapping\<close> leaves the rules of the classes it is not given, succeeds
  when the functions module defines every class it is given, and then holds, for each entry
  of a dictionary, the method-call rule of that entry.
\<close>
lemma register_keeps:
  "c \<notin> fst ` set mapping \<Longrightarrow>
   snd (register_mssql_mapping functions mapping reg) (c, d) = reg (c, d)"
proof (induction mapping arbitrary: reg)
  case Nil
  show ?case by simp
next
  case (Cons e mapping)
  obtain c' fn where e: "e = (c', fn)" by (cases e)
  with Cons.prems have ne: "(c, d) \<noteq> (c', ''mssql'')" and rest: "c \<notin> fst ` set mapping"
    by auto
  from Cons.IH [OF rest] show ?case
    by (simp add: e compiles_mssql_def compiles_other [OF ne])
qed

lemma register_succeeds:
  "fst ` set mapping \<subseteq> functions \<Longrightarrow> fst (register_mssql_mapping functions mapping reg) = None"
proof (induction mapping arbitrary: reg)
  case Nil
  show ?case by simp
next
  case (Cons e mapping)
  obtain c fn where e: "e = (c, fn)" by (cases e)
  with Cons.prems have "c \<in> functions" and "fst ` set mapping \<subseteq> functions" by auto
  with Cons.IH show ?case
    by (simp add: e compiles_mssql_def)
qed

lemma register_installs:
  "distinct (map fst mapping) \<Longrightarrow> fst ` set mapping \<subseteq> functions \<Longrightarrow> (c, fn) \<in> set mapping \<Longrightarrow>
   snd (register_mssql_mapping functions mapping reg) (c, ''mssql'') = Some (compile_mssql fn)"
proof (induction mapping arbitrary: reg)
  case Nil
  then show ?case by simp
next
  case (Cons e mapping)
  obtain c' fn' where e: "e = (c', fn')" by (cases e)
  from Cons.prems e have in_f: "c' \<in> functions" and sub: "fst ` set mapping \<subseteq> functions"
    and fresh: "c' \<notin> fst ` set mapping" and dist: "distinct (map fst mapping)"
    by auto
  show ?case
  proof (cases "(c, fn) = (c', fn')")
    case True
    with in_f show ?thesis
      by (simp add: e compiles_mssql_def compiles_same register_keeps [OF fresh])
  next
    case False
    with Cons.prems e have "(c, fn) \<in> set mapping" by auto
    from Cons.IH [OF dist sub this] in_f show ?thesis
      by (simp add: e compiles_mssql_def)
  qed
qed

text \<open>
  Claim C5. For a dictionary (keys distinct) of classes that the functions module defines,
  \<^verbatim>\<open>register_mssql_mapping\<close> raises nothing, and afterwards compiling for \<^verbatim>\<open>mssql\<close> an
  element of a class \<open>c\<close> with entry \<open>(c, fn)\<close> gives the compiled arguments in parentheses
  followed by \<^verbatim>\<open>.fn()\<close>, and leaves the element as it is.
\<close>
theorem register_mssql_mapping_method_call:
  assumes "distinct (map fst mapping)"
    and "fst ` set mapping \<subseteq> functions"
    and "(c, fn) \<in> set mapping"
    and "cls el = c"
  shows "fst (register_mssql_mapping functions mapping reg) = None
       \<and> compile_element (snd (register_mssql_mapping functions mapping reg)) ''mssql'' el compiler kw
           = Some (Inr (''('' @ process compiler kw (clauses el) @ '').'' @ fn @ ''()''), el)"
proof
  show "fst (register_mssql_mapping functions mapping reg) = None"
    by (rule register_succeeds [OF assms(2)])
next
  have "snd (register_mssql_mapping functions mapping reg) (cls el, ''mssql'') = Some (compile_mssql fn)"
    using register_installs [OF assms(1,2,3)] assms(4) by simp
  then show "compile_element (snd (register_mssql_mapping functions mapping reg)) ''mssql'' el compiler kw
           = Some (Inr (''('' @ process compiler kw (clauses el) @ '').'' @ fn @ ''()''), el)"
    by (simp add: compile_element_def compile_mssql_def)
qed

text \<open>
  The instance of C5 that the claim names: after registering \<^verbatim>\<open>{"ST_AsBinary": "STAsBinary"}\<close>,
  \<^verbatim>\<open>ST_AsBinary(geom)\<close> renders as the compiled column followed by \<^verbatim>\<open>.STAsBinary()\<close>.
\<close>
theorem register_mssql_mapping_method_call_witness:
  "compile_element
     (snd (register_mssql_mapping {''ST_AsBinary''} [(''ST_AsBinary'', ''STAsBinary'')] no_rules))
     ''mssql''
     \<lparr>cls = ''ST_AsBinary'', identifier = ''ST_AsBinary'', clauses = [OtherClause ''[lake].[geom]''],
      type_srid = - 1\<rparr>
     demo_compiler ()
   = Some (Inr ''([lake].[geom]).STAsBinary()'',
       \<lparr>cls = ''ST_AsBinary'', identifier = ''ST_AsBinary'', clauses = [OtherClause ''[lake].[geom]''],
        type_srid = - 1\<rparr>)"
proof -
  have pre: "distinct (map fst [(''ST_AsBinary'', ''STAsBinary'')])"
    "fst ` set [(''ST_AsBinary'', ''STAsBinary'')] \<subseteq> {''ST_AsBinary''}"
    "(''ST_AsBinary'', ''STAsBinary'') \<in> set [(''ST_AsBinary'', ''STAsBinary'')]"
    by simp_all
  show ?thesis
    using register_mssql_mapping_method_call [OF pre, where reg = no_rules
        and compiler = demo_compiler and kw = "()"
        and el = "\<lparr>cls = ''ST_AsBinary'', identifier = ''ST_AsBinary'',
          clauses = [OtherClause ''[lake].[geom]''], type_srid = - 1\<rparr>"]
    by (simp add: demo_compiler_def)
qed

subsection \<open>The rules registered at import\<close>

text \<open>
  When the functions module defines the six classes the module refers to, the import raises
  nothing and leaves these six rules for \<^verbatim>\<open>mssql\<close> in the table.
\<close>
lemma load_module_registry:
  assumes "required_functions \<subseteq> functions"
  shows "load_module functions reg =
     (None, reg((''ST_AsBinary'', ''mssql'') \<mapsto> compile_mssql ''STAsBinary'',
                 (''ST_AsEWKB'', ''mssql'') \<mapsto> compile_mssql ''STAsBinary'',
                 (''ST_GeomFromText'', ''mssql'') \<mapsto> MSSQL_ST_GeomFromText,
                 (''ST_GeomFromEWKT'', ''mssql'') \<mapsto> MSSQL_ST_GeomFromEWKT,
                 (''ST_GeomFromWKB'', ''mssql'') \<mapsto> MSSQL_ST_GeomFromWKB,
                 (''ST_GeomFromEWKB'', ''mssql'') \<mapsto> MSSQL_ST_GeomFromEWKB))"
  using assms
  by (simp add: load_module_def MSSQL_FUNCTIONS_def compiles_mssql_def decorate_def compiles_def
      required_functions_def)

text \<open>
  Claim C2. After the import, compiling for \<^verbatim>\<open>mssql\<close> an element of class
  \<^verbatim>\<open>ST_GeomFromText\<close> or \<^verbatim>\<open>ST_GeomFromEWKT\<close> gives
  \<^verbatim>\<open>geography::STGeomFromText(<compiled arguments>, <srid>)\<close>, where the srid is that of the
  element's type when it is positive and \<^verbatim>\<open>4326\<close> otherwise; the element's identifier is
  overwritten.
\<close>
theorem compile_from_text:
  assumes "required_functions \<subseteq> functions"
    and "cls el = ''ST_GeomFromText'' \<or> cls el = ''ST_GeomFromEWKT''"
  shows "fst (load_module functions reg) = None
       \<and> compile_element (snd (load_module functions reg)) ''mssql'' el compiler kw =
           Some (Inr (''geography::STGeomFromText('' @ process compiler kw (clauses el) @ '', ''
                      @ (if 0 < type_srid el then str_int (type_srid el) else ''4326'') @ '')''),
                 el\<lparr>identifier := ''geography::STGeomFromText''\<rparr>)"
  using assms(2)
  by (auto simp: load_module_registry [OF assms(1)] compile_element_def MSSQL_ST_GeomFromText_def
      MSSQL_ST_GeomFromEWKT_def compile_GeomFromText_MsSql_def Let_def)

text \<open>
  Instances of C2: srid 4326 and srid 3857 are rendered as they are, srid 0 as \<^verbatim>\<open>4326\<close>.
\<close>
theorem compile_from_text_witness:
  "compile_element (snd (load_module required_functions no_rules)) ''mssql''
     \<lparr>cls = ''ST_GeomFromText'', identifier = ''ST_GeomFromText'',
      clauses = [BindParameter (PyStr ''POINT(1 2)'')], type_srid = 4326\<rparr>
     demo_compiler ()
   = Some (Inr ''geography::STGeomFromText('POINT(1 2)', 4326)'',
       \<lparr>cls = ''ST_GeomFromText'', identifier = ''geography::STGeomFromText'',
        clauses = [BindParameter (PyStr ''POINT(1 2)'')], type_srid = 4326\<rparr>)
   \<and> compile_element (snd (load_module required_functions no_rules)) ''mssql''
     \<lparr>cls = ''ST_GeomFromEWKT'', identifier = ''ST_GeomFromEWKT'',
      clauses = [BindParameter (PyStr ''POINT(1 2)'')], type_srid = 0\<rparr>
     demo_compiler ()
   = Some (Inr ''geography::STGeomFromText('POINT(1 2)', 4326)'',
       \<lparr>cls = ''ST_GeomFromEWKT'', identifier = ''geography::STGeomFromText'',
        clauses = [BindParameter (PyStr ''POINT(1 2)'')], type_srid = 0\<rparr>)
   \<and> compile_element (snd (load_module required_functions no_rules)) ''mssql''
     \<lparr>cls = ''ST_GeomFromText'', identifier = ''ST_GeomFromText'',
      clauses = [BindParameter (PyStr ''POINT(1 2)'')], type_srid = 3857\<rparr>
     demo_compiler ()
   = Some (Inr ''geography::STGeomFromText('POINT(1 2)', 3857)'',
       \<lparr>cls = ''ST_GeomFromText'', identifier = ''geography::STGeomFromText'',
        clauses = [BindParameter (PyStr ''POINT(1 2)'')], type_srid = 3857\<rparr>)"
proof -
  have digits: "str_int 4326 = ''4326''" "str_int 3857 = ''3857''"
    by code_simp+
  show ?thesis
    using compile_from_text [OF subset_refl, where reg = no_rules
        and compiler = demo_compiler and kw = "()"
        and el = "\<lparr>cls = ''ST_GeomFromText'', identifier = ''ST_GeomFromText'',
          clauses = [BindParameter (PyStr ''POINT(1 2)'')], type_srid = 4326\<rparr>"]
      compile_from_text [OF subset_refl, where reg = no_rules
        and compiler = demo_compiler and kw = "()"
        and el = "\<lparr>cls = ''ST_GeomFromEWKT'', identifier = ''ST_GeomFromEWKT'',
          clauses = [BindParameter (PyStr ''POINT(1 2)'')], type_srid = 0\<rparr>"]
      compile_from_text [OF subset_refl, where reg = no_rules
        and compiler = demo_compiler and kw = "()"
        and el = "\<lparr>cls = ''ST_GeomFromText'', identifier = ''ST_GeomFromText'',
          clauses = [BindParameter (PyStr ''POINT(1 2)'')], type_srid = 3857\<rparr>"]
    by (simp add: demo_compiler_def quoted_def digits)
qed

text \<open>
  The from-binary rule on an element whose first argument is a bind parameter: compiling for
  \<^verbatim>\<open>mssql\<close> an element of class \<^verbatim>\<open>ST_GeomFromWKB\<close> or \<^verbatim>\<open>ST_GeomFromEWKB\<close> gives
  \<^verbatim>\<open>geography::STGeomFromWKB(<compiled arguments>, <srid>)\<close> when the srid of the element's
  type is positive and \<^verbatim>\<open>geography::STGeomFromWKB(<compiled arguments>)\<close> otherwise, with no
  srid and no default.
\<close>

lemma from_binary_bind_parameter:
  assumes "required_functions \<subseteq> functions"
    and "cls el = ''ST_GeomFromWKB'' \<or> cls el = ''ST_GeomFromEWKB''"
    and "clauses el = BindParameter v # rest"
  shows "compile_element (snd (load_module functions reg)) ''mssql'' el compiler kw =
     (let args = BindParameter (case v of PyMemoryview octets \<Rightarrow> PyBytes octets | _ \<Rightarrow> v) # rest
      in Some (Inr (''geography::STGeomFromWKB('' @ process compiler kw args
                    @ (if 0 < type_srid el then '', '' @ str_int (type_srid el) else []) @ '')''),
               el\<lparr>identifier := ''geography::STGeomFromWKB'', clauses := args\<rparr>))"
  using assms(2,3)
  by (cases v)
    (auto simp: load_module_registry [OF assms(1)] compile_element_def MSSQL_ST_GeomFromWKB_def
      MSSQL_ST_GeomFromEWKB_def compile_GeomFromWKB_MsSql_def Let_def)

text \<open>
  Examples on a byte sequence: srid 3857 is rendered, srid 0 leaves the one-argument form.
\<close>

lemma from_binary_bind_parameter_example:
  "compile_element (snd (load_module required_functions no_rules)) ''mssql''
     \<lparr>cls = ''ST_GeomFromWKB'', identifier = ''ST_GeomFromWKB'',
      clauses = [BindParameter (PyBytes [1, 1, 0, 0, 0])], type_srid = 3857\<rparr>
     demo_compiler ()
   = Some (Inr ''geography::STGeomFromWKB(<bytes:5>, 3857)'',
       \<lparr>cls = ''ST_GeomFromWKB'', identifier = ''geography::STGeomFromWKB'',
        clauses = [BindParameter (PyBytes [1, 1, 0, 0, 0])], type_srid = 3857\<rparr>)
   \<and> compile_element (snd (load_module required_functions no_rules)) ''mssql''
     \<lparr>cls = ''ST_GeomFromEWKB'', identifier = ''ST_GeomFromEWKB'',
      clauses = [BindParameter (PyBytes [1, 1, 0, 0, 0])], type_srid = 0\<rparr>
     demo_compiler ()
   = Some (Inr ''geography::STGeomFromWKB(<bytes:5>)'',
       \<lparr>cls = ''ST_GeomFromEWKB'', identifier = ''geography::STGeomFromWKB'',
        clauses = [BindParameter (PyBytes [1, 1, 0, 0, 0])], type_srid = 0\<rparr>)"
proof -
  have digits: "str_int 3857 = ''3857''" "str_nat (Suc (Suc (Suc (Suc (Suc 0))))) = ''5''"
    by code_simp+
  show ?thesis
    using from_binary_bind_parameter [OF subset_refl, where reg = no_rules
        and compiler = demo_compiler and kw = "()" and v = "PyBytes [1, 1, 0, 0, 0]" and rest = "[]"
        and el = "\<lparr>cls = ''ST_GeomFromWKB'', identifier = ''ST_GeomFromWKB'',
          clauses = [BindParameter (PyBytes [1, 1, 0, 0, 0])], type_srid = 3857\<rparr>"]
      from_binary_bind_parameter [OF subset_refl, where reg = no_rules
        and compiler = demo_compiler and kw = "()" and v = "PyBytes [1, 1, 0, 0, 0]" and rest = "[]"
        and el = "\<lparr>cls = ''ST_GeomFromEWKB'', identifier = ''ST_GeomFromEWKB'',
          clauses = [BindParameter (PyBytes [1, 1, 0, 0, 0])], type_srid = 0\<rparr>"]
    by (simp add: demo_compiler_def digits)
qed

text \<open>
  Claim C3 says that every compilation of \<^verbatim>\<open>ST_GeomFromWKB\<close> or \<^verbatim>\<open>ST_GeomFromEWKB\<close> for
  \<^verbatim>\<open>mssql\<close> renders \<^verbatim>\<open>geography::STGeomFromWKB(...)\<close>. The code does not: it reads
  \<^verbatim>\<open>list(element.clauses)[0].value\<close>, only to test the value for a byte view, before it
  renders anything. For \<^verbatim>\<open>ST_GeomFromWKB\<close> of a column, with srid 3857, the read raises
  \<^verbatim>\<open>AttributeError\<close> where the claim has \<^verbatim>\<open>geography::STGeomFromWKB([lake].[wkb], 3857)\<close>;
  for \<^verbatim>\<open>ST_GeomFromWKB\<close> of no argument it raises \<^verbatim>\<open>IndexError\<close>. The from-text rule, which
  has no such read, renders the same column argument.
\<close>

theorem compile_from_binary_column_raises:
  "compile_element (snd (load_module required_functions no_rules)) ''mssql''
     \<lparr>cls = ''ST_GeomFromWKB'', identifier = ''ST_GeomFromWKB'',
      clauses = [OtherClause ''[lake].[wkb]''], type_srid = 3857\<rparr>
     demo_compiler ()
   = Some (Inl AttributeError,
       \<lparr>cls = ''ST_GeomFromWKB'', identifier = ''geography::STGeomFromWKB'',
        clauses = [OtherClause ''[lake].[wkb]''], type_srid = 3857\<rparr>)
   \<and> compile_element (snd (load_module required_functions no_rules)) ''mssql''
     \<lparr>cls = ''ST_GeomFromEWKB'', identifier = ''ST_GeomFromEWKB'',
      clauses = [OtherClause ''[lake].[wkb]''], type_srid = 0\<rparr>
     demo_compiler ()
   = Some (Inl AttributeError,
       \<lparr>cls = ''ST_GeomFromEWKB'', identifier = ''geography::STGeomFromWKB'',
        clauses = [OtherClause ''[lake].[wkb]''], type_srid = 0\<rparr>)
   \<and> compile_element (snd (load_module required_functions no_rules)) ''mssql''
     \<lparr>cls = ''ST_GeomFromWKB'', identifier = ''ST_GeomFromWKB'', clauses = [], type_srid = 3857\<rparr>
     demo_compiler ()
   = Some (Inl IndexError,
       \<lparr>cls = ''ST_GeomFromWKB'', identifier = ''geography::STGeomFromWKB'', clauses = [],
        type_srid = 3857\<rparr>)
   \<and> process demo_compiler () [OtherClause ''[lake].[wkb]''] = ''[lake].[wkb]''
   \<and> compile_element (snd (load_module required_functions no_rules)) ''mssql''
     \<lparr>cls = ''ST_GeomFromText'', identifier = ''ST_GeomFromText'',
      clauses = [OtherClause ''[lake].[wkb]''], type_srid = 3857\<rparr>
     demo_compiler ()
   = Some (Inr ''geography::STGeomFromText([lake].[wkb], 3857)'',
       \<lparr>cls = ''ST_GeomFromText'', identifier = ''geography::STGeomFromText'',
        clauses = [OtherClause ''[lake].[wkb]''], type_srid = 3857\<rparr>)"
proof -
  have digits: "str_int 3857 = ''3857''"
    by code_simp
  show ?thesis
    by (simp add: load_module_registry [OF subset_refl] compile_element_def
        MSSQL_ST_GeomFromWKB_def MSSQL_ST_GeomFromEWKB_def MSSQL_ST_GeomFromText_def
        compile_GeomFromWKB_MsSql_def compile_GeomFromText_MsSql_def demo_compiler_def digits)
qed

text \<open>
  Claim C4. When the value of the first argument is a byte view, the rule leaves in its
  place the byte sequence of the same octets, the text it returns is built from the
  arguments so changed, and text and element are those that the same element with the byte
  sequence in the first place compiles to.
\<close>
theorem compile_from_binary_memoryview:
  assumes "clauses el = BindParameter (PyMemoryview octets) # rest"
  shows "compile_GeomFromWKB_MsSql el compiler kw
           = compile_GeomFromWKB_MsSql (el\<lparr>clauses := BindParameter (PyBytes octets) # rest\<rparr>) compiler kw
       \<and> clauses (snd (compile_GeomFromWKB_MsSql el compiler kw)) = BindParameter (PyBytes octets) # rest
       \<and> fst (compile_GeomFromWKB_MsSql el compiler kw)
           = Inr (''geography::STGeomFromWKB(''
                  @ process compiler kw (BindParameter (PyBytes octets) # rest)
                  @ (if 0 < type_srid el then '', '' @ str_int (type_srid el) else []) @ '')'')"
  using assms by (simp add: compile_GeomFromWKB_MsSql_def Let_def)

text \<open>
  An instance of C4, with a compiler that renders a byte view and a byte sequence
  differently: both inputs compile to the same text.
\<close>
theorem compile_from_binary_memoryview_witness:
  "compile_GeomFromWKB_MsSql
     \<lparr>cls = ''ST_GeomFromWKB'', identifier = ''ST_GeomFromWKB'',
      clauses = [BindParameter (PyMemoryview [1, 1, 0, 0, 0])], type_srid = 3857\<rparr>
     demo_compiler ()
   = (Inr ''geography::STGeomFromWKB(<bytes:5>, 3857)'',
       \<lparr>cls = ''ST_GeomFromWKB'', identifier = ''geography::STGeomFromWKB'',
        clauses = [BindParameter (PyBytes [1, 1, 0, 0, 0])], type_srid = 3857\<rparr>)
   \<and> compile_GeomFromWKB_MsSql
     \<lparr>cls = ''ST_GeomFromWKB'', identifier = ''ST_GeomFromWKB'',
      clauses = [BindParameter (PyBytes [1, 1, 0, 0, 0])], type_srid = 3857\<rparr>
     demo_compiler ()
   = (Inr ''geography::STGeomFromWKB(<bytes:5>, 3857)'',
       \<lparr>cls = ''ST_GeomFromWKB'', identifier = ''geography::STGeomFromWKB'',
        clauses = [BindParameter (PyBytes [1, 1, 0, 0, 0])], type_srid = 3857\<rparr>)"
proof -
  have digits: "str_int 3857 = ''3857''" "str_nat (Suc (Suc (Suc (Suc (Suc 0))))) = ''5''"
    by code_simp+
  show ?thesis
    using compile_from_binary_memoryview [where octets = "[1, 1, 0, 0, 0]" and rest = "[]"
        and compiler = demo_compiler and kw = "()"
        and el = "\<lparr>cls = ''ST_GeomFromWKB'', identifier = ''ST_GeomFromWKB'',
          clauses = [BindParameter (PyMemoryview [1, 1, 0, 0, 0])], type_srid = 3857\<rparr>"]
    by (simp add: demo_compiler_def digits prod_eq_iff compile_GeomFromWKB_MsSql_def)
qed

end
